theory Spec2Isabelle
  imports Complex_Main
begin

section \<open>Python values as the scorers receive them\<close>

text \<open>
  The DQS calculator of \<^verbatim>\<open>src/validators/dqs_calculator.py\<close> compares the cells of
  pandas tables. A cell is one of the scalars below: \<^verbatim>\<open>None\<close>, the float NaN, a bool,
  an int, a finite float or a string. Floats are idealised: a finite float is a real
  number and arithmetic on scores is exact, so every score is a \<^typ>\<open>real\<close>; of the double
  format the model keeps its range (what overflows and what underflows to zero when a
  number is converted), not its rounding. A string is a list of characters, one
  \<^typ>\<open>char\<close> per code point, so the strings are those of Latin-1.
\<close>

datatype pyval =
    PNone
  | PNaN
  | PBool bool
  | PInt int
  | PFloat real
  | PStr string

text \<open>
  What the module takes from its surroundings: whether the optional Levenshtein package
  was importable (\<^verbatim>\<open>HAS_LEVENSHTEIN\<close>), and how \<^verbatim>\<open>str\<close> prints a finite float.
\<close>

record pyenv =
  has_levenshtein :: bool
  float_repr :: "real \<Rightarrow> string"

text \<open>\<^verbatim>\<open>pd.isna\<close> on a scalar.\<close>

fun isna :: "pyval \<Rightarrow> bool" where
  "isna PNone = True"
| "isna PNaN = True"
| "isna _ = False"

text \<open>Python truthiness (\<^verbatim>\<open>if x\<close>, \<^verbatim>\<open>x and ...\<close>); NaN is a non-zero float.\<close>

fun truthy :: "pyval \<Rightarrow> bool" where
  "truthy PNone = False"
| "truthy PNaN = True"
| "truthy (PBool b) = b"
| "truthy (PInt i) = (i \<noteq> 0)"
| "truthy (PFloat r) = (r \<noteq> 0)"
| "truthy (PStr s) = (s \<noteq> [])"

subsection \<open>Strings\<close>

text \<open>
  The letters of Latin-1 that have a partner of the other case in Latin-1: the ASCII
  letters, and 0xE0 to 0xFE without the division sign against 0xC0 to 0xDE without the
  multiplication sign.
\<close>

definition lower_letters :: string where
  "lower_letters =
     ''abcdefghijklmnopqrstuvwxyz'' @
       [CHR 0xE0, CHR 0xE1, CHR 0xE2, CHR 0xE3, CHR 0xE4, CHR 0xE5, CHR 0xE6, CHR 0xE7,
        CHR 0xE8, CHR 0xE9, CHR 0xEA, CHR 0xEB, CHR 0xEC, CHR 0xED, CHR 0xEE, CHR 0xEF,
        CHR 0xF0, CHR 0xF1, CHR 0xF2, CHR 0xF3, CHR 0xF4, CHR 0xF5, CHR 0xF6, CHR 0xF8,
        CHR 0xF9, CHR 0xFA, CHR 0xFB, CHR 0xFC, CHR 0xFD, CHR 0xFE]"

definition upper_letters :: string where
  "upper_letters =
     ''ABCDEFGHIJKLMNOPQRSTUVWXYZ'' @
       [CHR 0xC0, CHR 0xC1, CHR 0xC2, CHR 0xC3, CHR 0xC4, CHR 0xC5, CHR 0xC6, CHR 0xC7,
        CHR 0xC8, CHR 0xC9, CHR 0xCA, CHR 0xCB, CHR 0xCC, CHR 0xCD, CHR 0xCE, CHR 0xCF,
        CHR 0xD0, CHR 0xD1, CHR 0xD2, CHR 0xD3, CHR 0xD4, CHR 0xD5, CHR 0xD6, CHR 0xD8,
        CHR 0xD9, CHR 0xDA, CHR 0xDB, CHR 0xDC, CHR 0xDD, CHR 0xDE]"

text \<open>
  Upper and lower case of one character. Three characters of Latin-1 have an upper-case
  form outside it (the micro sign, the sharp s, whose form is \<^verbatim>\<open>SS\<close>, and y with
  diaeresis); \<open>char_upper\<close> leaves them in place. The source compares upper-cased strings
  with \<^verbatim>\<open>NONE\<close> only, and none of the three forms holds a letter of it.
\<close>

definition char_upper :: "char \<Rightarrow> char" where
  "char_upper c = (case map_of (zip lower_letters upper_letters) c of Some u \<Rightarrow> u | None \<Rightarrow> c)"

definition char_lower :: "char \<Rightarrow> char" where
  "char_lower c = (case map_of (zip upper_letters lower_letters) c of Some l \<Rightarrow> l | None \<Rightarrow> c)"

text \<open>\<^verbatim>\<open>s.upper()\<close> and \<^verbatim>\<open>s.lower()\<close>.\<close>

definition str_upper :: "string \<Rightarrow> string" where
  "str_upper s = map char_upper s"

definition str_lower :: "string \<Rightarrow> string" where
  "str_lower s = map char_lower s"

text \<open>
  The characters \<^verbatim>\<open>str.strip()\<close> removes: tab, line feed, vertical tab, form feed,
  carriage return, the separators 0x1C to 0x1F, space, NEL and the no-break space.
\<close>

definition is_space :: "char \<Rightarrow> bool" where
  "is_space c \<longleftrightarrow>
     c \<in> set [CHR 0x09, CHR 0x0A, CHR 0x0B, CHR 0x0C, CHR 0x0D, CHR 0x1C, CHR 0x1D,
              CHR 0x1E, CHR 0x1F, CHR 0x20, CHR 0x85, CHR 0xA0]"

definition strip :: "string \<Rightarrow> string" where
  "strip s = rev (dropWhile is_space (rev (dropWhile is_space s)))"

fun nat_digits :: "nat \<Rightarrow> string" where
  "nat_digits n =
     (if n < 10 then [''0123456789'' ! n]
      else nat_digits (n div 10) @ [''0123456789'' ! (n mod 10)])"

definition int_str :: "int \<Rightarrow> string" where
  "int_str i = (if i < 0 then CHR ''-'' # nat_digits (nat (- i)) else nat_digits (nat i))"

text \<open>\<^verbatim>\<open>str(x)\<close>.\<close>

fun py_str :: "pyenv \<Rightarrow> pyval \<Rightarrow> string" where
  "py_str E PNone = ''None''"
| "py_str E PNaN = ''nan''"
| "py_str E (PBool b) = (if b then ''True'' else ''False'')"
| "py_str E (PInt i) = int_str i"
| "py_str E (PFloat r) = float_repr E r"
| "py_str E (PStr s) = s"

subsection \<open>Parsing numbers\<close>

definition is_digit :: "char \<Rightarrow> bool" where
  "is_digit c \<longleftrightarrow> c \<in> set ''0123456789''"

definition digit_val :: "char \<Rightarrow> nat" where
  "digit_val c = length (takeWhile (\<lambda>d. d \<noteq> c) ''0123456789'')"

text \<open>
  A digit part is \<^verbatim>\<open>digit (["_"] digit)*\<close>: digits with single underscores between
  them. \<open>digitpart_ok\<close> checks the shape, \<open>digitpart_val\<close> reads the decimal value.
\<close>

fun digitpart_tail :: "string \<Rightarrow> bool" where
  "digitpart_tail [] = True"
| "digitpart_tail [c] = is_digit c"
| "digitpart_tail (c # d # s) =
     (if c = CHR ''_'' then is_digit d \<and> digitpart_tail (d # s)
      else is_digit c \<and> digitpart_tail (d # s))"

definition digitpart_ok :: "string \<Rightarrow> bool" where
  "digitpart_ok s = (case s of [] \<Rightarrow> False | c # _ \<Rightarrow> is_digit c \<and> digitpart_tail s)"

definition digitpart_val :: "string \<Rightarrow> nat" where
  "digitpart_val s = foldl (\<lambda>n c. 10 * n + digit_val c) 0 (filter is_digit s)"

definition split_sign :: "string \<Rightarrow> bool \<times> string" where
  "split_sign s =
     (case s of
        [] \<Rightarrow> (False, [])
      | c # r \<Rightarrow> if c = CHR ''-'' then (True, r) else if c = CHR ''+'' then (False, r) else (False, s))"

text \<open>
  The white space \<^verbatim>\<open>int\<close> and \<^verbatim>\<open>float\<close> skip around a number: tab, line feed,
  vertical tab, form feed, carriage return and space, and NEL and the no-break space,
  which are turned into spaces first. The separators 0x1C to 0x1F are not skipped.
\<close>

definition is_num_space :: "char \<Rightarrow> bool" where
  "is_num_space c \<longleftrightarrow>
     c \<in> set [CHR 0x09, CHR 0x0A, CHR 0x0B, CHR 0x0C, CHR 0x0D, CHR 0x20, CHR 0x85, CHR 0xA0]"

definition num_strip :: "string \<Rightarrow> string" where
  "num_strip s = rev (dropWhile is_num_space (rev (dropWhile is_num_space s)))"

text \<open>\<^verbatim>\<open>int(s)\<close> for a string, base 10; \<open>None\<close> is the \<^verbatim>\<open>ValueError\<close>.\<close>

definition int_of_str :: "string \<Rightarrow> int option" where
  "int_of_str s =
     (let (neg, body) = split_sign (num_strip s)
      in if digitpart_ok body
         then Some (if neg then - int (digitpart_val body) else int (digitpart_val body))
         else None)"

text \<open>
  \<^verbatim>\<open>int(x)\<close>; \<open>None\<close> is the \<^verbatim>\<open>ValueError\<close> or \<^verbatim>\<open>TypeError\<close>. A float is truncated
  towards zero.
\<close>

fun py_int :: "pyval \<Rightarrow> int option" where
  "py_int PNone = None"
| "py_int PNaN = None"
| "py_int (PBool b) = Some (if b then 1 else 0)"
| "py_int (PInt i) = Some i"
| "py_int (PFloat r) = Some (if 0 \<le> r then \<lfloor>r\<rfloor> else \<lceil>r\<rceil>)"
| "py_int (PStr s) = int_of_str s"

text \<open>
  The result of \<^verbatim>\<open>float(x)\<close>: a finite number, or one of nan, inf and -inf (which a
  string can spell out or reach by its size).
\<close>

datatype pyfloat = Finite real | NonFinite

text \<open>
  The range of a double. A number of magnitude at least \<open>2^1024 - 2^970\<close>, half way
  between the largest double and \<open>2^1024\<close>, rounds beyond the largest double; one of
  magnitude at most \<open>2^-1075\<close>, half the smallest positive double, rounds to zero.
\<close>

definition double_overflows :: "real \<Rightarrow> bool" where
  "double_overflows x \<longleftrightarrow> 2 ^ 1024 - 2 ^ 970 \<le> \<bar>x\<bar>"

definition double_underflows :: "real \<Rightarrow> bool" where
  "double_underflows x \<longleftrightarrow> \<bar>x\<bar> \<le> 1 / 2 ^ 1075"

text \<open>The double a decimal string denotes: inf beyond the range, zero below it.\<close>

definition to_double :: "real \<Rightarrow> pyfloat" where
  "to_double x =
     (if double_overflows x then NonFinite
      else if double_underflows x then Finite 0
      else Finite x)"

text \<open>
  \<^verbatim>\<open>float(s)\<close> for a string: optional sign, then \<^verbatim>\<open>inf\<close>, \<^verbatim>\<open>infinity\<close> or \<^verbatim>\<open>nan\<close> in
  any case, or a decimal number with an optional fraction and exponent.
\<close>

definition split_exponent :: "string \<Rightarrow> (string \<times> string option)" where
  "split_exponent s =
     (let m = takeWhile (\<lambda>c. c \<noteq> CHR ''e'' \<and> c \<noteq> CHR ''E'') s;
          r = dropWhile (\<lambda>c. c \<noteq> CHR ''e'' \<and> c \<noteq> CHR ''E'') s
      in (m, case r of [] \<Rightarrow> None | _ # e \<Rightarrow> Some e))"

definition split_point :: "string \<Rightarrow> (string \<times> string option)" where
  "split_point s =
     (let m = takeWhile (\<lambda>c. c \<noteq> CHR ''.'') s;
          r = dropWhile (\<lambda>c. c \<noteq> CHR ''.'') s
      in (m, case r of [] \<Rightarrow> None | _ # f \<Rightarrow> Some f))"

definition mantissa_of :: "string \<Rightarrow> real option" where
  "mantissa_of s =
     (case split_point s of
        (ip, None) \<Rightarrow> if digitpart_ok ip then Some (real (digitpart_val ip)) else None
      | (ip, Some fp) \<Rightarrow>
          if (ip = [] \<or> digitpart_ok ip) \<and> (fp = [] \<or> digitpart_ok fp) \<and> \<not> (ip = [] \<and> fp = [])
          then Some (real (digitpart_val ip)
                     + real (digitpart_val fp) / 10 ^ length (filter is_digit fp))
          else None)"

definition exponent_of :: "string option \<Rightarrow> int option" where
  "exponent_of e =
     (case e of
        None \<Rightarrow> Some 0
      | Some t \<Rightarrow>
          (let (neg, body) = split_sign t
           in if digitpart_ok body
              then Some (if neg then - int (digitpart_val body) else int (digitpart_val body))
              else None))"

definition float_of_str :: "string \<Rightarrow> pyfloat option" where
  "float_of_str s =
     (let (neg, body) = split_sign (num_strip s)
      in if str_lower body \<in> set [''inf'', ''infinity'', ''nan''] then Some NonFinite
         else case split_exponent body of
                (m, e) \<Rightarrow>
                  (case (mantissa_of m, exponent_of e) of
                     (Some x, Some k) \<Rightarrow>
                       Some (to_double ((if neg then - x else x) * 10 powi k))
                   | _ \<Rightarrow> None))"

text \<open>The exceptions a conversion raises.\<close>

datatype py_error = ValueError | TypeError | OverflowError

text \<open>
  \<^verbatim>\<open>float(x)\<close>: \<^verbatim>\<open>TypeError\<close> for \<^verbatim>\<open>None\<close>, \<^verbatim>\<open>ValueError\<close> for a string that is not a
  number, and \<^verbatim>\<open>OverflowError\<close> for an int too large to convert to a double.
\<close>

fun py_float :: "pyval \<Rightarrow> py_error + pyfloat" where
  "py_float PNone = Inl TypeError"
| "py_float PNaN = Inr NonFinite"
| "py_float (PBool b) = Inr (Finite (if b then 1 else 0))"
| "py_float (PInt i) =
     (if double_overflows (real_of_int i) then Inl OverflowError
      else Inr (Finite (real_of_int i)))"
| "py_float (PFloat r) = Inr (Finite r)"
| "py_float (PStr s) = (case float_of_str s of None \<Rightarrow> Inl ValueError | Some x \<Rightarrow> Inr x)"

section \<open>Field scorers\<close>

text \<open>
  \<^verbatim>\<open>Levenshtein.distance\<close> of the optional package: the least number of single-character
  insertions, deletions and substitutions turning one string into the other.
\<close>

fun levenshtein :: "string \<Rightarrow> string \<Rightarrow> nat" where
  "levenshtein [] t = length t"
| "levenshtein s [] = length s"
| "levenshtein (a # s) (b # t) =
     min (min (levenshtein s (b # t) + 1) (levenshtein (a # s) t + 1))
         (levenshtein s t + (if a = b then 0 else 1))"

text \<open>\<^verbatim>\<open>calculate_text_score\<close>: one minus the character error rate, not below 0.\<close>

definition calculate_text_score :: "pyenv \<Rightarrow> pyval \<Rightarrow> pyval \<Rightarrow> real" where
  "calculate_text_score E predicted ground_truth =
     (if isna predicted \<and> isna ground_truth then 1
      else if isna predicted \<or> isna ground_truth then 0
      else
        let pred_str0 = strip (py_str E predicted);
            truth_str0 = strip (py_str E ground_truth);
            pred_str = (if str_upper pred_str0 = ''NONE'' then [] else pred_str0);
            truth_str = (if str_upper truth_str0 = ''NONE'' then [] else truth_str0)
        in if truth_str = [] \<and> pred_str = [] then 1
           else if truth_str = [] then (if pred_str \<noteq> [] then 0 else 1)
           else
             let distance = (if has_levenshtein E then levenshtein pred_str truth_str
                             else if pred_str = truth_str then 0 else length truth_str);
                 cer = real distance / real (max (length truth_str) 1)
             in max 0 (1 - cer))"

text \<open>\<^verbatim>\<open>except (ValueError, TypeError)\<close>: the exceptions the numeric scorer catches.\<close>

definition caught :: "py_error \<Rightarrow> bool" where
  "caught e \<longleftrightarrow> e = ValueError \<or> e = TypeError"

text \<open>
  \<^verbatim>\<open>calculate_numeric_score\<close>: one minus the relative error, not below 0. The two
  conversions stand in one \<^verbatim>\<open>try\<close> block: a caught exception returns 0.0, any other
  leaves the function (\<open>Inl\<close>). When one of the two floats is nan or infinite and the
  truth is not zero, \<^verbatim>\<open>relative_error\<close> is nan or inf, \<^verbatim>\<open>1 - relative_error\<close> is nan or
  -inf, and \<^verbatim>\<open>max(0, ...)\<close> keeps its first argument 0; when the truth is zero such a
  prediction is not equal to it.
\<close>

definition calculate_numeric_score :: "pyval \<Rightarrow> pyval \<Rightarrow> py_error + real" where
  "calculate_numeric_score predicted ground_truth =
     (if isna predicted \<and> isna ground_truth then Inr 1
      else if isna predicted \<or> isna ground_truth then Inr 0
      else
        case py_float predicted of
          Inl e \<Rightarrow> (if caught e then Inr 0 else Inl e)
        | Inr pred_val \<Rightarrow>
            (case py_float ground_truth of
               Inl e \<Rightarrow> (if caught e then Inr 0 else Inl e)
             | Inr truth_val \<Rightarrow>
                 Inr (case (pred_val, truth_val) of
                        (Finite p, Finite t) \<Rightarrow>
                          if t = 0 then (if p = 0 then 1 else 0)
                          else max 0 (1 - \<bar>p - t\<bar> / \<bar>t\<bar>)
                      | _ \<Rightarrow> 0)))"

text \<open>
  The date scorer reads each of year, month and day inside one \<^verbatim>\<open>try\<close> block that
  covers both sides: \<^verbatim>\<open>int(x) if x and str(x).upper() != "NONE" else None\<close> for the
  prediction, then for the truth, and on \<^verbatim>\<open>ValueError\<close> or \<^verbatim>\<open>TypeError\<close> both are set to
  \<^verbatim>\<open>None\<close>. In \<open>int_or_none\<close> the outer \<open>None\<close> is the exception.
\<close>

definition int_or_none :: "pyenv \<Rightarrow> pyval \<Rightarrow> int option option" where
  "int_or_none E x =
     (if truthy x \<and> str_upper (py_str E x) \<noteq> ''NONE''
      then (case py_int x of None \<Rightarrow> None | Some i \<Rightarrow> Some (Some i))
      else Some None)"

definition parse_both :: "pyenv \<Rightarrow> pyval \<Rightarrow> pyval \<Rightarrow> int option \<times> int option" where
  "parse_both E pred truth =
     (case int_or_none E pred of
        None \<Rightarrow> (None, None)
      | Some p \<Rightarrow>
          (case int_or_none E truth of
             None \<Rightarrow> (None, None)
           | Some t \<Rightarrow> (p, t)))"

definition all_null :: "pyenv \<Rightarrow> pyval list \<Rightarrow> bool" where
  "all_null E xs = list_all (\<lambda>x. isna x \<or> str_upper (py_str E x) = ''NONE'') xs"

text \<open>\<^verbatim>\<open>calculate_date_score\<close>.\<close>

definition calculate_date_score ::
  "pyenv \<Rightarrow> pyval \<Rightarrow> pyval \<Rightarrow> pyval \<Rightarrow> pyval \<Rightarrow> pyval \<Rightarrow> pyval \<Rightarrow> real" where
  "calculate_date_score E pred_date pred_month pred_year truth_date truth_month truth_year =
     (let all_pred_null = all_null E [pred_date, pred_month, pred_year];
          all_truth_null = all_null E [truth_date, truth_month, truth_year]
      in if all_pred_null \<and> all_truth_null then 1
         else if all_pred_null \<or> all_truth_null then 0
         else
           let (p_year, t_year) = parse_both E pred_year truth_year
           in if p_year \<noteq> t_year then (if p_year = None \<or> t_year = None then 0 else 0)
              else
                let (p_month, t_month) = parse_both E pred_month truth_month
                in if p_month \<noteq> t_month then 3 / 10
                   else
                     let (p_date, t_date) = parse_both E pred_date truth_date
                     in if p_date = t_date then 1
                        else case (p_date, t_date) of
                               (Some p, Some t) \<Rightarrow> if \<bar>p - t\<bar> \<le> 3 then 8 / 10 else 5 / 10
                             | _ \<Rightarrow> 5 / 10)"

text \<open>\<^verbatim>\<open>calculate_enum_score\<close>: exact match of the trimmed, lower-cased strings.\<close>

definition calculate_enum_score :: "pyenv \<Rightarrow> pyval \<Rightarrow> pyval \<Rightarrow> real" where
  "calculate_enum_score E predicted ground_truth =
     (if isna predicted \<and> isna ground_truth then 1
      else if isna predicted \<or> isna ground_truth then 0
      else
        let pred_str = str_lower (strip (py_str E predicted));
            truth_str = str_lower (strip (py_str E ground_truth))
        in if pred_str = ''none'' \<and> truth_str = ''none'' then 1
           else if pred_str = truth_str then 1 else 0)"

text \<open>\<^verbatim>\<open>to_bool\<close>, the local helper of \<^verbatim>\<open>calculate_boolean_score\<close>.\<close>

definition to_bool :: "pyenv \<Rightarrow> pyval \<Rightarrow> bool option" where
  "to_bool E val =
     (if isna val then None
      else case val of
             PBool b \<Rightarrow> Some b
           | _ \<Rightarrow>
               let val_str = str_lower (strip (py_str E val))
               in if val_str \<in> set [''true'', ''1'', ''yes''] then Some True
                  else if val_str \<in> set [''false'', ''0'', ''no''] then Some False
                  else None)"

definition calculate_boolean_score :: "pyenv \<Rightarrow> pyval \<Rightarrow> pyval \<Rightarrow> real" where
  "calculate_boolean_score E predicted ground_truth =
     (let p = to_bool E predicted;
          t = to_bool E ground_truth
      in if p = None \<and> t = None then 1
         else if p = None \<or> t = None then 1 / 2
         else if p = t then 1 else 0)"

section \<open>Tables\<close>

text \<open>
  A \<^verbatim>\<open>DataFrame\<close> with the default row index: its column names (distinct) and its rows
  in order, each row giving the cell of every column. \<^verbatim>\<open>df.empty\<close> holds when either
  axis has length 0. A cell is the scalar that indexing a row hands to a scorer.
\<close>

record dataframe =
  columns :: "string list"
  rows :: "(string \<Rightarrow> pyval) list"

definition df_empty :: "dataframe \<Rightarrow> bool" where
  "df_empty df \<longleftrightarrow> columns df = [] \<or> rows df = []"

text \<open>\<^verbatim>\<open>pd.DataFrame()\<close>.\<close>

definition empty_df :: dataframe where
  "empty_df = \<lparr>columns = [], rows = []\<rparr>"

text \<open>\<^verbatim>\<open>df[mask]\<close>: the rows selected by a boolean mask, the columns kept.\<close>

definition df_filter :: "((string \<Rightarrow> pyval) \<Rightarrow> bool) \<Rightarrow> dataframe \<Rightarrow> dataframe" where
  "df_filter keep df = df\<lparr>rows := filter keep (rows df)\<rparr>"

text \<open>
  The elementwise \<^verbatim>\<open>==\<close> of a column with a scalar: a missing value on either side
  compares unequal, numbers (bools included) compare by value, strings by content, and
  a string never equals a number.
\<close>

fun num_of :: "pyval \<Rightarrow> real option" where
  "num_of (PBool b) = Some (if b then 1 else 0)"
| "num_of (PInt i) = Some (real_of_int i)"
| "num_of (PFloat r) = Some r"
| "num_of _ = None"

definition py_eq :: "pyval \<Rightarrow> pyval \<Rightarrow> bool" where
  "py_eq a b =
     (if isna a \<or> isna b then False
      else case (a, b) of
             (PStr s, PStr t) \<Rightarrow> s = t
           | _ \<Rightarrow> (case (num_of a, num_of b) of (Some x, Some y) \<Rightarrow> x = y | _ \<Rightarrow> False))"

text \<open>\<^verbatim>\<open>np.mean\<close> of a list; the source calls it on non-empty lists only.\<close>

definition mean :: "real list \<Rightarrow> real" where
  "mean xs = sum_list xs / real (length xs)"

text \<open>
  The table and the report are modelled on the runs in which no scorer raises.
  \<open>returned_score\<close> reads the score of a call that returned; where the call raised, and
  the source leaves \<^verbatim>\<open>calculate_table_dqs\<close> with the exception, it is 0.
\<close>

definition returned_score :: "py_error + real \<Rightarrow> real" where
  "returned_score r = (case r of Inr score \<Rightarrow> score | Inl e \<Rightarrow> 0)"

text \<open>
  The \<^verbatim>\<open>if\<close>/\<^verbatim>\<open>elif\<close> chain on the field type, as \<^verbatim>\<open>calculate_table_dqs\<close> and
  \<^verbatim>\<open>calculate_row_dqs\<close> both write it: an unknown type is scored as text.
\<close>

definition field_score :: "pyenv \<Rightarrow> string \<Rightarrow> pyval \<Rightarrow> pyval \<Rightarrow> real" where
  "field_score E field_type pred_val truth_val =
     (if field_type = ''text'' then calculate_text_score E pred_val truth_val
      else if field_type = ''numeric''
      then returned_score (calculate_numeric_score pred_val truth_val)
      else if field_type = ''enum'' then calculate_enum_score E pred_val truth_val
      else if field_type = ''boolean'' then calculate_boolean_score E pred_val truth_val
      else calculate_text_score E pred_val truth_val)"

text \<open>
  The mask of one truth row, as a predicate on a predicted row: starting from all
  \<^verbatim>\<open>True\<close>, every key column present on both sides adds the elementwise equality.
\<close>

fun key_mask ::
  "string list \<Rightarrow> string list \<Rightarrow> (string \<Rightarrow> pyval) \<Rightarrow> string list \<Rightarrow> (string \<Rightarrow> pyval) \<Rightarrow> bool" where
  "key_mask pcols tcols truth_row [] pred_row = True"
| "key_mask pcols tcols truth_row (key # keys) pred_row =
     ((if key \<in> set pcols \<and> key \<in> set tcols then py_eq (pred_row key) (truth_row key) else True)
      \<and> key_mask pcols tcols truth_row keys pred_row)"

text \<open>
  A dict from a name to a list of scores is an association list in insertion order
  with distinct keys; \<open>append_score\<close> is \<^verbatim>\<open>d[key].append(score)\<close>.
\<close>

definition append_score :: "string \<Rightarrow> real \<Rightarrow> (string \<times> real list) list \<Rightarrow> (string \<times> real list) list" where
  "append_score key score d = map (\<lambda>(k, v). if k = key then (k, v @ [score]) else (k, v)) d"

text \<open>The inner loop of \<^verbatim>\<open>calculate_table_dqs\<close> over \<^verbatim>\<open>field_types.items()\<close>.\<close>

definition score_row_fields ::
  "pyenv \<Rightarrow> string list \<Rightarrow> string list \<Rightarrow> (string \<times> string) list \<Rightarrow> (string \<Rightarrow> pyval) \<Rightarrow>
   (string \<Rightarrow> pyval) \<Rightarrow> (string \<times> real list) list \<Rightarrow> (string \<times> real list) list" where
  "score_row_fields E pcols tcols field_types pred_row truth_row all_field_scores =
     foldl (\<lambda>afs (field, field_type).
              if field \<in> set pcols \<and> field \<in> set tcols
              then append_score field (field_score E field_type (pred_row field) (truth_row field)) afs
              else afs)
           all_field_scores field_types"

text \<open>One round of the loop over the truth rows; the state is the score lists and
  \<^verbatim>\<open>matched_count\<close>.\<close>

definition match_truth_row ::
  "pyenv \<Rightarrow> dataframe \<Rightarrow> string list \<Rightarrow> string list \<Rightarrow> (string \<times> string) list \<Rightarrow>
   (string \<times> real list) list \<times> nat \<Rightarrow> (string \<Rightarrow> pyval) \<Rightarrow> (string \<times> real list) list \<times> nat" where
  "match_truth_row E predicted_df tcols key_columns field_types st truth_row =
     (let matched_rows = df_filter (key_mask (columns predicted_df) tcols truth_row key_columns) predicted_df
      in if \<not> df_empty matched_rows
         then let pred_row = hd (rows matched_rows)
              in (score_row_fields E (columns predicted_df) tcols field_types pred_row truth_row (fst st),
                  snd st + 1)
         else st)"

text \<open>\<^verbatim>\<open>calculate_table_dqs\<close>: the overall score and the per-field scores.\<close>

definition calculate_table_dqs ::
  "pyenv \<Rightarrow> dataframe \<Rightarrow> dataframe \<Rightarrow> string list \<Rightarrow> (string \<times> string) list \<Rightarrow>
   real \<times> (string \<times> real) list" where
  "calculate_table_dqs E predicted_df ground_truth_df key_columns field_types =
     (if df_empty predicted_df \<and> df_empty ground_truth_df then (1, [])
      else if df_empty predicted_df then (0, [])
      else if df_empty ground_truth_df then (1, [])
      else
        let (all_field_scores, matched_count) =
              foldl (match_truth_row E predicted_df (columns ground_truth_df) key_columns field_types)
                    (map (\<lambda>(field, _). (field, [])) field_types, 0)
                    (rows ground_truth_df);
            final_field_scores =
              map (\<lambda>(field, scores). (field, mean scores))
                  (filter (\<lambda>(field, scores). scores \<noteq> []) all_field_scores);
            coverage = (if length (rows ground_truth_df) > 0
                        then real matched_count / real (length (rows ground_truth_df)) else 0);
            overall = (if final_field_scores \<noteq> []
                       then mean (map snd final_field_scores) * coverage else 0)
        in (overall, final_field_scores))"

section \<open>Sections and the overall score\<close>
















section \<open>Notions of the specification\<close>

text \<open>
  The environment of the examples: the Levenshtein package is installed. No example
  prints a float, so the float printer is never consulted.
\<close>

definition example_env :: pyenv where
  "example_env = \<lparr>has_levenshtein = True, float_repr = (\<lambda>r. [])\<rparr>"

text \<open>
  A value that is the sentinel "NONE": not missing, and its string form, trimmed and
  upper-cased, reads \<^verbatim>\<open>NONE\<close>.
\<close>

definition none_sentinel :: "pyenv \<Rightarrow> pyval \<Rightarrow> bool" where
  "none_sentinel E v \<longleftrightarrow> \<not> isna v \<and> str_upper (strip (py_str E v)) = ''NONE''"

text \<open>The fixed vocabulary of the boolean coercion, on a trimmed lower-case string.\<close>

definition vocabulary :: "string \<Rightarrow> bool option" where
  "vocabulary s =
     (if s \<in> set [''true'', ''1'', ''yes''] then Some True
      else if s \<in> set [''false'', ''0'', ''no''] then Some False
      else None)"

text \<open>
  The boolean rule in the words of the specification: both null 1.0, one null 0.5,
  otherwise 1.0 on equality and 0.0 on inequality.
\<close>

fun boolean_rule :: "bool option \<Rightarrow> bool option \<Rightarrow> real" where
  "boolean_rule None None = 1"
| "boolean_rule None (Some t) = 1 / 2"
| "boolean_rule (Some p) None = 1 / 2"
| "boolean_rule (Some p) (Some t) = (if p = t then 1 else 0)"

text \<open>
  The row matcher in the words of the specification: the first predicted row that
  agrees with the truth row on every key column present on both sides, if any.
\<close>

definition find_match ::
  "dataframe \<Rightarrow> string list \<Rightarrow> string list \<Rightarrow> (string \<Rightarrow> pyval) \<Rightarrow> (string \<Rightarrow> pyval) option" where
  "find_match predicted_df tcols key_columns truth_row =
     find (key_mask (columns predicted_df) tcols truth_row key_columns) (rows predicted_df)"

text \<open>The matched truth rows, each with its predicted row, in the order of the truth rows.\<close>

definition matched_pairs ::
  "dataframe \<Rightarrow> dataframe \<Rightarrow> string list \<Rightarrow> ((string \<Rightarrow> pyval) \<times> (string \<Rightarrow> pyval)) list" where
  "matched_pairs predicted_df ground_truth_df key_columns =
     List.map_filter
       (\<lambda>truth_row. map_option (\<lambda>pred_row. (pred_row, truth_row))
          (find_match predicted_df (columns ground_truth_df) key_columns truth_row))
       (rows ground_truth_df)"

text \<open>The same list for any sequence of truth rows, as the loop of the source meets them.\<close>

definition pairs_of ::
  "dataframe \<Rightarrow> string list \<Rightarrow> string list \<Rightarrow> (string \<Rightarrow> pyval) list \<Rightarrow>
   ((string \<Rightarrow> pyval) \<times> (string \<Rightarrow> pyval)) list" where
  "pairs_of predicted_df tcols key_columns ts =
     List.map_filter
       (\<lambda>truth_row. map_option (\<lambda>pred_row. (pred_row, truth_row))
          (find_match predicted_df tcols key_columns truth_row)) ts"

text \<open>The fields that are scored: those of the field-type map that are columns on both sides.\<close>

definition scored_fields :: "dataframe \<Rightarrow> dataframe \<Rightarrow> (string \<times> string) list \<Rightarrow> (string \<times> string) list" where
  "scored_fields predicted_df ground_truth_df field_types =
     filter (\<lambda>(field, field_type).
               field \<in> set (columns predicted_df) \<and> field \<in> set (columns ground_truth_df))
            field_types"

text \<open>
  The per-field scores in the words of the specification: for each scored field, the
  arithmetic mean of its scores over the matched truth rows; no entry at all when no
  truth row matched.
\<close>

definition per_field_scores ::
  "pyenv \<Rightarrow> dataframe \<Rightarrow> dataframe \<Rightarrow> string list \<Rightarrow> (string \<times> string) list \<Rightarrow> (string \<times> real) list" where
  "per_field_scores E predicted_df ground_truth_df key_columns field_types =
     (if matched_pairs predicted_df ground_truth_df key_columns = [] then []
      else map (\<lambda>(field, field_type).
                  (field, mean (map (\<lambda>(pred_row, truth_row).
                                       field_score E field_type (pred_row field) (truth_row field))
                                    (matched_pairs predicted_df ground_truth_df key_columns))))
               (scored_fields predicted_df ground_truth_df field_types))"

text \<open>Coverage: matched truth rows over all truth rows.\<close>

definition coverage :: "dataframe \<Rightarrow> dataframe \<Rightarrow> string list \<Rightarrow> real" where
  "coverage predicted_df ground_truth_df key_columns =
     real (length (matched_pairs predicted_df ground_truth_df key_columns))
     / real (length (rows ground_truth_df))"

text \<open>Small tables for the examples: two people, keyed by \<^verbatim>\<open>submitter_id\<close>.\<close>

definition ex_row_ann :: "string \<Rightarrow> pyval" where
  "ex_row_ann = (\<lambda>c. PNaN)(''submitter_id'' := PInt 1, ''first_name'' := PStr ''ann'')"

definition ex_row_bob :: "string \<Rightarrow> pyval" where
  "ex_row_bob = (\<lambda>c. PNaN)(''submitter_id'' := PInt 2, ''first_name'' := PStr ''bob'')"

definition ex_row_xyz :: "string \<Rightarrow> pyval" where
  "ex_row_xyz = (\<lambda>c. PNaN)(''submitter_id'' := PInt 1, ''first_name'' := PStr ''xyz'')"

definition ex_truth :: dataframe where
  "ex_truth = \<lparr>columns = [''submitter_id'', ''first_name''], rows = [ex_row_ann, ex_row_bob]\<rparr>"

definition ex_truth_one :: dataframe where
  "ex_truth_one = \<lparr>columns = [''submitter_id'', ''first_name''], rows = [ex_row_ann]\<rparr>"


definition ex_pred_wrong :: dataframe where
  "ex_pred_wrong = \<lparr>columns = [''submitter_id'', ''first_name''], rows = [ex_row_xyz]\<rparr>"









section \<open>Field scores\<close>

subsection \<open>The sentinel and the vocabulary\<close>

lemma char_upper_NOE:
  assumes "char_upper c = d" and "d \<in> set ''NOE''"
  shows "c = d \<or> (c = CHR ''n'' \<and> d = CHR ''N'') \<or> (c = CHR ''o'' \<and> d = CHR ''O'')
         \<or> (c = CHR ''e'' \<and> d = CHR ''E'')"
proof (cases "map_of (zip lower_letters upper_letters) c")
  case None
  have "char_upper c = c" by (simp only: char_upper_def None option.case)
  with assms(1) show ?thesis by simp
next
  case (Some u)
  have "char_upper c = u" by (simp only: char_upper_def Some option.case)
  with assms(1) have u: "u = d" by simp
  from Some have "(c, u) \<in> set (zip lower_letters upper_letters)"
    by (rule map_of_SomeD)
  with u assms(2) show ?thesis by (auto simp: lower_letters_def upper_letters_def)
qed

lemma upper_NONE_cases:
  assumes "str_upper s = ''NONE''"
  shows "s \<in> set [''NONE'', ''NONe'', ''NOnE'', ''NOne'', ''NoNE'', ''NoNe'', ''NonE'', ''None'',
                   ''nONE'', ''nONe'', ''nOnE'', ''nOne'', ''noNE'', ''noNe'', ''nonE'', ''none'']"
proof -
  from assms obtain a b c d where s: "s = [a, b, c, d]"
    unfolding str_upper_def by (auto simp: map_eq_Cons_conv)
  from assms have up: "char_upper a = CHR ''N''" "char_upper b = CHR ''O''"
      "char_upper c = CHR ''N''" "char_upper d = CHR ''E''"
    unfolding s str_upper_def by simp_all
  have "a = CHR ''N'' \<or> a = CHR ''n''" using char_upper_NOE [OF up(1)] by simp
  moreover have "b = CHR ''O'' \<or> b = CHR ''o''" using char_upper_NOE [OF up(2)] by simp
  moreover have "c = CHR ''N'' \<or> c = CHR ''n''" using char_upper_NOE [OF up(3)] by simp
  moreover have "d = CHR ''E'' \<or> d = CHR ''e''" using char_upper_NOE [OF up(4)] by simp
  ultimately show ?thesis unfolding s by (elim disjE; hypsubst; simp)
qed

lemma lower_of_sentinels:
  "list_all (\<lambda>s. str_lower s = ''none'')
     [''NONE'', ''NONe'', ''NOnE'', ''NOne'', ''NoNE'', ''NoNe'', ''NonE'', ''None'',
      ''nONE'', ''nONe'', ''nOnE'', ''nOne'', ''noNE'', ''noNe'', ''nonE'', ''none'']"
  by code_simp

lemma upper_NONE_lower: "str_upper s = ''NONE'' \<Longrightarrow> str_lower s = ''none''"
  using upper_NONE_cases [of s] lower_of_sentinels unfolding list_all_iff by blast

lemma lower_None: "str_lower (strip ''None'') = ''none''"
  by code_simp

lemma lower_nan: "str_lower (strip ''nan'') = ''nan''"
  by code_simp

lemma lower_True: "str_lower (strip ''True'') = ''true''"
  by code_simp

lemma lower_False: "str_lower (strip ''False'') = ''false''"
  by code_simp

lemma to_bool_vocabulary: "to_bool E v = vocabulary (str_lower (strip (py_str E v)))"
proof (cases v)
  case PNone
  then show ?thesis by (simp add: to_bool_def lower_None vocabulary_def)
next
  case PNaN
  then show ?thesis by (simp add: to_bool_def lower_nan vocabulary_def)
next
  case (PBool b)
  then show ?thesis by (cases b) (simp_all add: to_bool_def lower_True lower_False vocabulary_def)
next
  case (PInt i)
  then show ?thesis by (simp add: to_bool_def vocabulary_def Let_def)
next
  case (PFloat r)
  then show ?thesis by (simp add: to_bool_def vocabulary_def Let_def)
next
  case (PStr s)
  then show ?thesis by (simp add: to_bool_def vocabulary_def Let_def)
qed

lemma to_bool_missing: "isna v \<or> none_sentinel E v \<Longrightarrow> to_bool E v = None"
proof (erule disjE)
  assume "isna v"
  then show ?thesis by (simp add: to_bool_def)
next
  assume "none_sentinel E v"
  then have "str_lower (strip (py_str E v)) = ''none''"
    by (simp add: none_sentinel_def upper_NONE_lower)
  then show ?thesis by (simp add: to_bool_vocabulary vocabulary_def)
qed


subsection \<open>The score of a call that returns lies between 0 and 1\<close>

lemma text_score_range: "0 \<le> calculate_text_score E p g \<and> calculate_text_score E p g \<le> 1"
  by (simp add: calculate_text_score_def Let_def)

lemma numeric_score_range:
  "calculate_numeric_score p g = Inr score \<Longrightarrow> 0 \<le> score \<and> score \<le> 1"
  by (auto simp: calculate_numeric_score_def split: if_splits sum.splits pyfloat.splits)

lemma returned_score_range:
  "0 \<le> returned_score (calculate_numeric_score p g)
   \<and> returned_score (calculate_numeric_score p g) \<le> 1"
  by (cases "calculate_numeric_score p g")
     (simp_all add: returned_score_def numeric_score_range)

lemma date_score_range:
  "0 \<le> calculate_date_score E pd pm py td tm ty \<and> calculate_date_score E pd pm py td tm ty \<le> 1"
  by (simp add: calculate_date_score_def Let_def split: prod.split option.split)

lemma enum_score_range: "0 \<le> calculate_enum_score E p g \<and> calculate_enum_score E p g \<le> 1"
  by (simp add: calculate_enum_score_def Let_def)

lemma boolean_score_range: "0 \<le> calculate_boolean_score E p g \<and> calculate_boolean_score E p g \<le> 1"
  by (simp add: calculate_boolean_score_def Let_def)

lemma field_score_range: "0 \<le> field_score E ty p g \<and> field_score E ty p g \<le> 1"
  by (simp add: field_score_def text_score_range returned_score_range enum_score_range
        boolean_score_range)

subsection \<open>Claims about the field scorers\<close>

text \<open>
  C1. The claim: when not both date triples are fully null, a year mismatch scores 0.0
  whatever the day and month, and a year that does not parse on either side counts as a
  mismatch unless both years are null. The code sets both years to \<^verbatim>\<open>None\<close> as soon as
  one of them fails to parse, so they compare equal: a prediction with year \<^verbatim>\<open>abc\<close>
  (or NaN) against the truth year 2020, day and month agreeing, scores 1.0, where the
  year \<^verbatim>\<open>None\<close> or 2021 against 2020 scores 0.0.
\<close>

theorem date_score_unparseable_year:
  "calculate_date_score example_env (PStr ''15'') (PStr ''6'') (PStr ''abc'')
                                    (PStr ''15'') (PStr ''6'') (PStr ''2020'') = 1
   \<and> calculate_date_score example_env (PStr ''15'') (PStr ''6'') PNaN
                                      (PStr ''15'') (PStr ''6'') (PStr ''2020'') = 1
   \<and> calculate_date_score example_env (PStr ''15'') (PStr ''6'') PNone
                                      (PStr ''15'') (PStr ''6'') (PStr ''2020'') = 0
   \<and> calculate_date_score example_env (PStr ''15'') (PStr ''6'') (PStr ''2021'')
                                      (PStr ''15'') (PStr ''6'') (PStr ''2020'') = 0"
  by code_simp

text \<open>
  C2, as stated, fails: null against the sentinel scores 0.0 for text and enum fields,
  and numeric scoring gives 0.0 to the sentinel on both sides, where the claim says 1.0.
\<close>

theorem null_null_rule_counterexample:
  "calculate_text_score example_env PNone (PStr ''NONE'') = 0
   \<and> calculate_numeric_score (PStr ''NONE'') (PStr ''NONE'') = Inr 0
   \<and> calculate_enum_score example_env PNone (PStr ''NONE'') = 0"
  by code_simp

text \<open>
  C2, amended. Two missing values score 1.0 for every field kind (text, numeric, enum,
  boolean); two sentinels "NONE", in any case, score 1.0 for text and enum fields; and
  boolean scoring gives 1.0 to any combination of missing and sentinel.
\<close>

theorem null_null_rule:
  "(isna p \<and> isna g \<longrightarrow>
      calculate_text_score E p g = 1 \<and> calculate_numeric_score p g = Inr 1
      \<and> calculate_enum_score E p g = 1 \<and> calculate_boolean_score E p g = 1)
   \<and> (none_sentinel E p \<and> none_sentinel E g \<longrightarrow>
      calculate_text_score E p g = 1 \<and> calculate_enum_score E p g = 1)
   \<and> ((isna p \<or> none_sentinel E p) \<and> (isna g \<or> none_sentinel E g) \<longrightarrow>
      calculate_boolean_score E p g = 1)"
proof -
  have nb: "to_bool E v = None" if "isna v \<or> none_sentinel E v" for v
    using that by (rule to_bool_missing)
  have 1: "isna p \<and> isna g \<longrightarrow>
      calculate_text_score E p g = 1 \<and> calculate_numeric_score p g = Inr 1
      \<and> calculate_enum_score E p g = 1 \<and> calculate_boolean_score E p g = 1"
    by (simp add: calculate_text_score_def calculate_numeric_score_def calculate_enum_score_def
          calculate_boolean_score_def to_bool_def)
  have 2: "none_sentinel E p \<and> none_sentinel E g \<longrightarrow>
      calculate_text_score E p g = 1 \<and> calculate_enum_score E p g = 1"
    by (auto simp: none_sentinel_def calculate_text_score_def calculate_enum_score_def Let_def
          dest: upper_NONE_lower)
  have 3: "(isna p \<or> none_sentinel E p) \<and> (isna g \<or> none_sentinel E g) \<longrightarrow>
      calculate_boolean_score E p g = 1"
    using nb [of p] nb [of g] by (simp add: calculate_boolean_score_def)
  from 1 2 3 show ?thesis by blast
qed

text \<open>The rule at concrete values.\<close>

theorem null_null_rule_witness:
  "isna PNone \<and> isna PNaN \<and> none_sentinel example_env (PStr ''None'')
   \<and> none_sentinel example_env (PStr '' NONE'')
   \<and> calculate_text_score example_env PNone PNaN = 1
   \<and> calculate_numeric_score PNone PNaN = Inr 1
   \<and> calculate_enum_score example_env PNone PNaN = 1
   \<and> calculate_text_score example_env (PStr ''None'') (PStr '' NONE'') = 1
   \<and> calculate_enum_score example_env (PStr ''None'') (PStr '' NONE'') = 1
   \<and> calculate_boolean_score example_env PNone (PStr '' NONE'') = 1"
proof -
  have s: "none_sentinel example_env (PStr ''None'')" "none_sentinel example_env (PStr '' NONE'')"
    by code_simp+
  show ?thesis
    using s null_null_rule [of PNone PNaN example_env]
      null_null_rule [of "PStr ''None''" "PStr '' NONE''" example_env]
      null_null_rule [of PNone "PStr '' NONE''" example_env]
    by simp
qed

text \<open>
  C8. The claim: for every pair of values each field scorer returns a score between 0
  and 1. The numeric scorer catches \<^verbatim>\<open>ValueError\<close> and \<^verbatim>\<open>TypeError\<close> around its two
  conversions and returns 0.0, but not the \<^verbatim>\<open>OverflowError\<close> that \<^verbatim>\<open>float\<close> raises for an
  int beyond the range of a double: for the int \<open>10^400\<close> on either side it returns no
  score at all. The same number as a string, and a string that is no number, score 0.0.
\<close>

theorem numeric_score_overflow:
  "calculate_numeric_score (PInt (10 ^ 400)) (PInt 1) = Inl OverflowError
   \<and> calculate_numeric_score (PInt 1) (PInt (10 ^ 400)) = Inl OverflowError
   \<and> calculate_numeric_score (PStr ''1e400'') (PInt 1) = Inr 0
   \<and> calculate_numeric_score (PStr ''abc'') (PInt 1) = Inr 0"
proof -
  have big: "double_overflows (real_of_int (10 ^ 400))"
    by (simp add: double_overflows_def)
  have one: "\<not> double_overflows (real_of_int 1)"
    by (simp add: double_overflows_def)
  have parsed: "mantissa_of ''1'' = Some 1" "exponent_of (Some ''400'') = Some 400"
    "split_exponent ''1e400'' = (''1'', Some ''400'')" "split_sign (num_strip ''1e400'') = (False, ''1e400'')"
    "str_lower ''1e400'' \<notin> set [''inf'', ''infinity'', ''nan'']"
    by code_simp+
  have e400: "float_of_str ''1e400'' = Some NonFinite"
    by (simp add: float_of_str_def parsed to_double_def double_overflows_def)
  have abc: "float_of_str ''abc'' = None"
    by code_simp
  show ?thesis
    using big one by (simp add: calculate_numeric_score_def caught_def e400 abc)
qed

text \<open>
  C9. Boolean scoring coerces each value through the fixed vocabulary (true, 1, yes;
  false, 0, no; anything else null) applied to its trimmed lower-case string form, then
  scores 1.0 when both are null, 0.5 when exactly one is, and otherwise 1.0 on equality
  and 0.0 on inequality.
\<close>

theorem boolean_score_rule:
  "to_bool E v = vocabulary (str_lower (strip (py_str E v)))
   \<and> calculate_boolean_score E p g =
       boolean_rule (vocabulary (str_lower (strip (py_str E p))))
                    (vocabulary (str_lower (strip (py_str E g))))"
proof -
  have "calculate_boolean_score E p g = boolean_rule (to_bool E p) (to_bool E g)"
    by (cases "to_bool E p"; cases "to_bool E g") (simp_all add: calculate_boolean_score_def)
  then show ?thesis by (simp add: to_bool_vocabulary)
qed

section \<open>Table scores\<close>

subsection \<open>The loops of table scoring\<close>

lemma append_score_map:
  "(if c then append_score field v (map (\<lambda>(f, ty). (f, G f ty)) fts)
    else map (\<lambda>(f, ty). (f, G f ty)) fts)
   = map (\<lambda>(f, ty). (f, if f = field \<and> c then G f ty @ [v] else G f ty)) fts"
  by (auto simp: append_score_def)

lemma score_row_fields_map:
  assumes "distinct (map fst xs)" and "set xs \<subseteq> set fts" and "distinct (map fst fts)"
  shows "score_row_fields E pcols tcols xs p t (map (\<lambda>(f, ty). (f, G f ty)) fts)
         = map (\<lambda>(f, ty). (f, G f ty @ (if (f, ty) \<in> set xs \<and> f \<in> set pcols \<and> f \<in> set tcols
                                          then [field_score E ty (p f) (t f)] else []))) fts"
  using assms
proof (induction xs arbitrary: G)
  case Nil
  then show ?case by (simp add: score_row_fields_def)
next
  case (Cons x xs)
  obtain fx tx where x: "x = (fx, tx)" by (cases x)
  from Cons.prems have d: "distinct (map fst xs)" and sub: "set xs \<subseteq> set fts"
    and xin: "(fx, tx) \<in> set fts" and notin: "fx \<notin> fst ` set xs"
    by (auto simp: x)
  have uniq: "ty = tx" if "(fx, ty) \<in> set fts" for ty
    using that xin Cons.prems(3) by (meson eq_key_imp_eq_value)
  define c where "c \<longleftrightarrow> fx \<in> set pcols \<and> fx \<in> set tcols"
  define G' where "G' = (\<lambda>f ty. if f = fx \<and> c then G f ty @ [field_score E tx (p fx) (t fx)] else G f ty)"
  have "score_row_fields E pcols tcols (x # xs) p t (map (\<lambda>(f, ty). (f, G f ty)) fts)
      = score_row_fields E pcols tcols xs p t
          (if c then append_score fx (field_score E tx (p fx) (t fx)) (map (\<lambda>(f, ty). (f, G f ty)) fts)
           else map (\<lambda>(f, ty). (f, G f ty)) fts)"
    by (simp add: score_row_fields_def x c_def)
  also have "\<dots> = score_row_fields E pcols tcols xs p t (map (\<lambda>(f, ty). (f, G' f ty)) fts)"
    unfolding append_score_map G'_def ..
  also have "\<dots> = map (\<lambda>(f, ty). (f, G' f ty @ (if (f, ty) \<in> set xs \<and> f \<in> set pcols \<and> f \<in> set tcols
                                          then [field_score E ty (p f) (t f)] else []))) fts"
    by (rule Cons.IH [OF d sub Cons.prems(3)])
  also have "\<dots> = map (\<lambda>(f, ty). (f, G f ty @ (if (f, ty) \<in> set (x # xs) \<and> f \<in> set pcols \<and> f \<in> set tcols
                                          then [field_score E ty (p f) (t f)] else []))) fts"
  proof (rule map_cong [OF refl])
    fix e assume e: "e \<in> set fts"
    obtain f ty where fty: "e = (f, ty)" by (cases e)
    show "(case e of (f, ty) \<Rightarrow> (f, G' f ty @ (if (f, ty) \<in> set xs \<and> f \<in> set pcols \<and> f \<in> set tcols
                                          then [field_score E ty (p f) (t f)] else [])))
        = (case e of (f, ty) \<Rightarrow> (f, G f ty @ (if (f, ty) \<in> set (x # xs) \<and> f \<in> set pcols \<and> f \<in> set tcols
                                          then [field_score E ty (p f) (t f)] else [])))"
    proof (cases "f = fx")
      case True
      with e fty have "ty = tx" using uniq by simp
      moreover have "(fx, ty') \<notin> set xs" for ty' using notin by force
      ultimately show ?thesis using True by (simp add: fty x G'_def c_def)
    next
      case False
      then show ?thesis by (simp add: fty x G'_def)
    qed
  qed
  finally show ?case .
qed


lemma find_filter: "find P xs = (if filter P xs = [] then None else Some (hd (filter P xs)))"
  by (induction xs) auto

lemma pairs_of_Nil: "pairs_of pred tcols keys [] = []"
  by (simp add: pairs_of_def map_filter_simps)

lemma pairs_of_Cons:
  "pairs_of pred tcols keys (t # ts)
   = (case find_match pred tcols keys t of
        None \<Rightarrow> pairs_of pred tcols keys ts
      | Some p \<Rightarrow> (p, t) # pairs_of pred tcols keys ts)"
  by (simp add: pairs_of_def map_filter_simps split: option.split)

lemma match_truth_row_step:
  assumes "columns pred \<noteq> []"
  shows "match_truth_row E pred tcols keys fts (afs, n) t
         = (case find_match pred tcols keys t of
              None \<Rightarrow> (afs, n)
            | Some p \<Rightarrow> (score_row_fields E (columns pred) tcols fts p t afs, n + 1))"
  using assms
  by (simp add: match_truth_row_def df_empty_def df_filter_def find_match_def find_filter Let_def)

lemma table_loop:
  assumes "columns pred \<noteq> []" and "distinct (map fst fts)"
  shows "foldl (match_truth_row E pred tcols keys fts) (map (\<lambda>(f, ty). (f, G f ty)) fts, n) ts
         = (map (\<lambda>(f, ty). (f, G f ty @ (if f \<in> set (columns pred) \<and> f \<in> set tcols
                                   then map (\<lambda>(p, t). field_score E ty (p f) (t f))
                                            (pairs_of pred tcols keys ts)
                                   else []))) fts,
            n + length (pairs_of pred tcols keys ts))"
proof (induction ts arbitrary: G n)
  case Nil
  show ?case by (simp add: pairs_of_Nil case_prod_beta)
next
  case (Cons t ts)
  show ?case
  proof (cases "find_match pred tcols keys t")
    case None
    then have "pairs_of pred tcols keys (t # ts) = pairs_of pred tcols keys ts"
      by (simp add: pairs_of_Cons)
    then show ?thesis
      using Cons.IH [of G n] None by (simp add: match_truth_row_step [OF assms(1)] case_prod_beta)
  next
    case (Some p)
    define G' where "G' = (\<lambda>f ty. G f ty @ (if (f, ty) \<in> set fts \<and> f \<in> set (columns pred) \<and> f \<in> set tcols
                                          then [field_score E ty (p f) (t f)] else []))"
    have pr: "pairs_of pred tcols keys (t # ts) = (p, t) # pairs_of pred tcols keys ts"
      using Some by (simp add: pairs_of_Cons)
    have "foldl (match_truth_row E pred tcols keys fts) (map (\<lambda>(f, ty). (f, G f ty)) fts, n) (t # ts)
        = foldl (match_truth_row E pred tcols keys fts)
            (score_row_fields E (columns pred) tcols fts p t (map (\<lambda>(f, ty). (f, G f ty)) fts), n + 1) ts"
      using Some by (simp add: match_truth_row_step [OF assms(1)])
    also have "score_row_fields E (columns pred) tcols fts p t (map (\<lambda>(f, ty). (f, G f ty)) fts)
        = map (\<lambda>(f, ty). (f, G' f ty)) fts"
      unfolding G'_def by (rule score_row_fields_map [OF assms(2) subset_refl assms(2)])
    also have "foldl (match_truth_row E pred tcols keys fts) (map (\<lambda>(f, ty). (f, G' f ty)) fts, n + 1) ts
        = (map (\<lambda>(f, ty). (f, G' f ty @ (if f \<in> set (columns pred) \<and> f \<in> set tcols
                                   then map (\<lambda>(p, t). field_score E ty (p f) (t f))
                                            (pairs_of pred tcols keys ts)
                                   else []))) fts,
            n + 1 + length (pairs_of pred tcols keys ts))"
      by (rule Cons.IH)
    also have "map (\<lambda>(f, ty). (f, G' f ty @ (if f \<in> set (columns pred) \<and> f \<in> set tcols
                                   then map (\<lambda>(p, t). field_score E ty (p f) (t f))
                                            (pairs_of pred tcols keys ts)
                                   else []))) fts
        = map (\<lambda>(f, ty). (f, G f ty @ (if f \<in> set (columns pred) \<and> f \<in> set tcols
                                   then map (\<lambda>(p, t). field_score E ty (p f) (t f))
                                            (pairs_of pred tcols keys (t # ts))
                                   else []))) fts"
      by (rule map_cong [OF refl]) (auto simp: G'_def pr)
    finally show ?thesis by (simp add: pr case_prod_beta)
  qed
qed


lemma pairs_of_matched:
  "pairs_of pred (columns truth) keys (rows truth) = matched_pairs pred truth keys"
  by (simp add: pairs_of_def matched_pairs_def)

lemma table_loop_result:
  assumes "columns pred \<noteq> []" and "distinct (map fst fts)"
  shows "foldl (match_truth_row E pred (columns truth) keys fts)
            (map (\<lambda>(field, _). (field, [])) fts, 0) (rows truth)
        = (map (\<lambda>(f, ty). (f, if f \<in> set (columns pred) \<and> f \<in> set (columns truth)
                                   then map (\<lambda>(p, t). field_score E ty (p f) (t f))
                                            (matched_pairs pred truth keys)
                                   else [])) fts,
           length (matched_pairs pred truth keys))"
  using table_loop [OF assms, of E "columns truth" keys "\<lambda>f ty. []" 0 "rows truth"]
  by (simp add: pairs_of_matched case_prod_beta)

lemma final_field_scores:
  "map (\<lambda>(field, scores). (field, mean scores))
       (filter (\<lambda>(field, scores). scores \<noteq> [])
          (map (\<lambda>(f, ty). (f, if f \<in> set (columns pred) \<and> f \<in> set (columns truth)
                                   then map (\<lambda>(p, t). field_score E ty (p f) (t f))
                                            (matched_pairs pred truth keys)
                                   else [])) fts))
   = per_field_scores E pred truth keys fts"
proof (cases "matched_pairs pred truth keys = []")
  case True
  then show ?thesis by (simp add: per_field_scores_def filter_map o_def case_prod_beta)
next
  case False
  then show ?thesis
    by (induction fts) (auto simp: per_field_scores_def scored_fields_def split: if_splits)
qed

lemma table_dqs_formula:
  assumes "\<not> df_empty pred" and "\<not> df_empty truth" and "distinct (map fst fts)"
  shows "calculate_table_dqs E pred truth keys fts
         = (if per_field_scores E pred truth keys fts = [] then 0
            else mean (map snd (per_field_scores E pred truth keys fts)) * coverage pred truth keys,
            per_field_scores E pred truth keys fts)"
proof -
  from assms(1) have cols: "columns pred \<noteq> []" by (simp add: df_empty_def)
  from assms(2) have len: "0 < length (rows truth)" by (simp add: df_empty_def)
  show ?thesis
    unfolding calculate_table_dqs_def table_loop_result [OF cols assms(3)] Let_def prod.case
      final_field_scores
    using assms(1,2) len
    by (simp add: coverage_def)
qed

subsection \<open>Means of scores\<close>


lemma mean_nonneg: "\<forall>x\<in>set xs. 0 \<le> x \<Longrightarrow> 0 \<le> mean xs"
  by (simp add: mean_def sum_list_nonneg)

lemma mean_zero: "xs \<noteq> [] \<Longrightarrow> \<forall>x\<in>set xs. 0 \<le> x \<Longrightarrow> mean xs = 0 \<Longrightarrow> \<forall>x\<in>set xs. x = 0"
  by (simp add: mean_def sum_list_nonneg_eq_0_iff)

lemma per_field_nonneg: "\<forall>e\<in>set (per_field_scores E pred truth keys fts). 0 \<le> snd e"
  by (auto simp: per_field_scores_def intro!: mean_nonneg simp: field_score_range)

lemma per_field_Nil:
  "per_field_scores E pred truth keys fts = [] \<longleftrightarrow>
   matched_pairs pred truth keys = [] \<or> scored_fields pred truth fts = []"
  by (simp add: per_field_scores_def)

lemma map_filter_Nil: "List.map_filter f xs = [] \<longleftrightarrow> (\<forall>x\<in>set xs. f x = None)"
  by (induction xs) (auto simp: map_filter_simps split: option.split)

lemma matched_pairs_Nil:
  "matched_pairs pred truth keys = [] \<longleftrightarrow>
   (\<forall>t\<in>set (rows truth). \<forall>p\<in>set (rows pred).
      \<not> key_mask (columns pred) (columns truth) t keys p)"
  by (auto simp: matched_pairs_def find_match_def map_filter_Nil find_None_iff)

subsection \<open>Claims about table scoring\<close>

text \<open>
  C6. Table scoring on empty inputs: both tables empty gives (1.0, no field scores);
  predicted empty and truth non-empty gives (0.0, none); truth empty and predicted
  non-empty gives (1.0, none).
\<close>

theorem table_empty_inputs:
  "(df_empty predicted_df \<and> df_empty ground_truth_df \<longrightarrow>
      calculate_table_dqs E predicted_df ground_truth_df key_columns field_types = (1, []))
   \<and> (df_empty predicted_df \<and> \<not> df_empty ground_truth_df \<longrightarrow>
      calculate_table_dqs E predicted_df ground_truth_df key_columns field_types = (0, []))
   \<and> (\<not> df_empty predicted_df \<and> df_empty ground_truth_df \<longrightarrow>
      calculate_table_dqs E predicted_df ground_truth_df key_columns field_types = (1, []))"
  by (simp add: calculate_table_dqs_def)

text \<open>The three cases at the empty table and a two-row table.\<close>

theorem table_empty_inputs_witness:
  "df_empty empty_df \<and> \<not> df_empty ex_truth
   \<and> calculate_table_dqs example_env empty_df empty_df [''submitter_id''] [(''first_name'', ''text'')] = (1, [])
   \<and> calculate_table_dqs example_env empty_df ex_truth [''submitter_id''] [(''first_name'', ''text'')] = (0, [])
   \<and> calculate_table_dqs example_env ex_truth empty_df [''submitter_id''] [(''first_name'', ''text'')] = (1, [])"
  using table_empty_inputs [of empty_df empty_df example_env "[''submitter_id'']" "[(''first_name'', ''text'')]"]
    table_empty_inputs [of empty_df ex_truth example_env "[''submitter_id'']" "[(''first_name'', ''text'')]"]
    table_empty_inputs [of ex_truth empty_df example_env "[''submitter_id'']" "[(''first_name'', ''text'')]"]
  by (simp add: df_empty_def empty_df_def ex_truth_def)



text \<open>
  C3, as stated, fails: the only truth row is matched by key and the predicted table is
  not empty, yet the table score is 0, because the one scored field is entirely wrong.
\<close>

theorem table_score_zero_counterexample:
  "fst (calculate_table_dqs example_env ex_pred_wrong ex_truth_one [''submitter_id''] [(''first_name'', ''text'')]) = 0
   \<and> \<not> df_empty ex_pred_wrong \<and> \<not> df_empty ex_truth_one
   \<and> key_mask (columns ex_pred_wrong) (columns ex_truth_one) ex_row_ann [''submitter_id''] ex_row_xyz
   \<and> rows ex_truth_one = [ex_row_ann] \<and> rows ex_pred_wrong = [ex_row_xyz]"
proof -
  have h: "\<not> df_empty ex_pred_wrong" "\<not> df_empty ex_truth_one" "distinct (map fst [(''first_name'', ''text'')])"
    by (simp_all add: df_empty_def ex_pred_wrong_def ex_truth_one_def)
  have m: "matched_pairs ex_pred_wrong ex_truth_one [''submitter_id''] = [(ex_row_xyz, ex_row_ann)]"
    by (simp add: matched_pairs_def find_match_def map_filter_simps ex_pred_wrong_def ex_truth_one_def
          ex_row_ann_def ex_row_xyz_def py_eq_def)
  have pf: "per_field_scores example_env ex_pred_wrong ex_truth_one [''submitter_id''] [(''first_name'', ''text'')]
              = [(''first_name'', 0)]"
    by code_simp
  have k: "key_mask (columns ex_pred_wrong) (columns ex_truth_one) ex_row_ann [''submitter_id''] ex_row_xyz"
    by (simp add: ex_pred_wrong_def ex_truth_one_def ex_row_ann_def ex_row_xyz_def py_eq_def)
  show ?thesis
    using h k by (simp add: table_dqs_formula [OF h] pf mean_def) (simp add: ex_pred_wrong_def ex_truth_one_def)
qed

text \<open>
  C3, amended. A table score is 0 only if the ground truth is non-empty and either the
  predicted table is empty, or no truth row matched a predicted row, or no field of the
  field-type map is a column on both sides, or every per-field score is 0.
\<close>

theorem table_score_zero_only_if:
  assumes "distinct (map fst field_types)"
    and "fst (calculate_table_dqs E predicted_df ground_truth_df key_columns field_types) = 0"
  shows "\<not> df_empty ground_truth_df
         \<and> (df_empty predicted_df
            \<or> (\<forall>t\<in>set (rows ground_truth_df). \<forall>p\<in>set (rows predicted_df).
                  \<not> key_mask (columns predicted_df) (columns ground_truth_df) t key_columns p)
            \<or> scored_fields predicted_df ground_truth_df field_types = []
            \<or> list_all (\<lambda>(field, score). score = 0)
                 (per_field_scores E predicted_df ground_truth_df key_columns field_types))"
proof -
  let ?pf = "per_field_scores E predicted_df ground_truth_df key_columns field_types"
  let ?mp = "matched_pairs predicted_df ground_truth_df key_columns"
  have t: "\<not> df_empty ground_truth_df"
    using assms(2) by (auto simp: calculate_table_dqs_def split: if_splits)
  show ?thesis
  proof (cases "df_empty predicted_df")
    case True
    with t show ?thesis by simp
  next
    case False
    have len: "0 < length (rows ground_truth_df)" using t by (simp add: df_empty_def)
    from assms(2) have z: "(if ?pf = [] then 0
            else mean (map snd ?pf) * coverage predicted_df ground_truth_df key_columns) = 0"
      by (simp add: table_dqs_formula [OF False t assms(1)])
    show ?thesis
    proof (cases "?pf = []")
      case True
      then show ?thesis using t by (auto simp: per_field_Nil matched_pairs_Nil)
    next
      case ne: False
      with z have "mean (map snd ?pf) = 0 \<or> coverage predicted_df ground_truth_df key_columns = 0"
        by simp
      then show ?thesis
      proof
        assume "coverage predicted_df ground_truth_df key_columns = 0"
        with len have "?mp = []" by (simp add: coverage_def)
        then show ?thesis using t by (simp add: matched_pairs_Nil)
      next
        assume m0: "mean (map snd ?pf) = 0"
        have "\<forall>x\<in>set (map snd ?pf). x = 0"
          by (rule mean_zero [OF _ _ m0]) (use ne per_field_nonneg in auto)
        then have "list_all (\<lambda>(field, score). score = 0) ?pf"
          by (auto simp: list_all_iff)
        with t show ?thesis by simp
      qed
    qed
  qed
qed

text \<open>The amended rule at the table whose one scored field is entirely wrong.\<close>

theorem table_score_zero_only_if_witness:
  "distinct (map fst [(''first_name'', ''text'')])
   \<and> fst (calculate_table_dqs example_env ex_pred_wrong ex_truth_one [''submitter_id''] [(''first_name'', ''text'')]) = 0
   \<and> \<not> df_empty ex_truth_one
   \<and> list_all (\<lambda>(field, score). score = 0)
        (per_field_scores example_env ex_pred_wrong ex_truth_one [''submitter_id''] [(''first_name'', ''text'')])"
proof -
  have h: "\<not> df_empty ex_pred_wrong" "\<not> df_empty ex_truth_one" "distinct (map fst [(''first_name'', ''text'')])"
    by (simp_all add: df_empty_def ex_pred_wrong_def ex_truth_one_def)
  have m: "matched_pairs ex_pred_wrong ex_truth_one [''submitter_id''] = [(ex_row_xyz, ex_row_ann)]"
    by (simp add: matched_pairs_def find_match_def map_filter_simps ex_pred_wrong_def ex_truth_one_def
          ex_row_ann_def ex_row_xyz_def py_eq_def)
  have pf: "per_field_scores example_env ex_pred_wrong ex_truth_one [''submitter_id''] [(''first_name'', ''text'')]
              = [(''first_name'', 0)]"
    by code_simp
  have z: "fst (calculate_table_dqs example_env ex_pred_wrong ex_truth_one [''submitter_id''] [(''first_name'', ''text'')]) = 0"
    by (simp add: table_dqs_formula [OF h] pf mean_def)
  show ?thesis
    using table_score_zero_only_if [OF h(3) z] h z pf by simp
qed

section \<open>The report\<close>

subsection \<open>The loop over the tables\<close>





















subsection \<open>Claims about sections and the overall score\<close>





end
